theory Spec2Isabelle
  imports Complex_Main
begin

section \<open>Python values shared by the model\<close>

text \<open>
  The program is the Qt front end \<^verbatim>\<open>liveusb/gui.py\<close>. Its objects are mutable and
  report changes through Qt signals. Each class becomes a record of its fields, each
  method a function from the object before the call to the object after it, and every
  \<^verbatim>\<open>emit()\<close> appends the signal to the trace kept in the object that emits it.
  A raised exception is a value of \<open>py_error\<close>; the fields assigned before the raise stay
  assigned, as they do in Python.
\<close>

datatype py_error = IndexError | TypeError

text \<open>
  The values that reach \<^verbatim>\<open>addError\<close> as \<^verbatim>\<open>e.args[0]\<close> of a caught exception: a string
  (the message of a \<^verbatim>\<open>LiveUSBError\<close>) or an integer (the \<^verbatim>\<open>errno\<close> of an \<^verbatim>\<open>OSError\<close>).
  \<open>py_str\<close> is Python's \<^verbatim>\<open>str\<close>, decimal for an integer. \<open>py_in v xs\<close> is \<^verbatim>\<open>v in xs\<close> for a
  list of strings: an integer is equal to no string.
\<close>

datatype py_value = PyStr string | PyInt int

fun str_nat :: "nat \<Rightarrow> string" where
  "str_nat n =
     (if n < 10 then [''0123456789'' ! n]
      else str_nat (n div 10) @ [''0123456789'' ! (n mod 10)])"

declare str_nat.simps [simp del]

definition str_int :: "int \<Rightarrow> string" where
  "str_int i = (if i < 0 then ''-'' @ str_nat (nat (- i)) else str_nat (nat i))"

fun py_str :: "py_value \<Rightarrow> string" where
  "py_str (PyStr s) = s"
| "py_str (PyInt i) = str_int i"

fun py_in :: "py_value \<Rightarrow> string list \<Rightarrow> bool" where
  "py_in (PyStr s) xs = (s \<in> set xs)"
| "py_in (PyInt i) xs = False"

datatype signal =
    RunningChanged | CurrentChanged | MaximumChanged | PathChanged
  | StatusChanged | FinishedChanged
  | InfoChanged | WarningChanged | ErrorChanged
  | UsbDrivesChanged | CurrentDriveChanged | DriveToRestoreChanged

section \<open>ReleaseDownload: the download job and its progress\<close>

text \<open>
  \<^verbatim>\<open>_current\<close> and \<^verbatim>\<open>_maximum\<close> hold numbers (the class starts them at \<^verbatim>\<open>-1.0\<close>), but
  \<^verbatim>\<open>start(size=None)\<close> stores \<^verbatim>\<open>None\<close> in \<^verbatim>\<open>_maximum\<close> and \<^verbatim>\<open>end()\<close> copies \<^verbatim>\<open>_maximum\<close>
  into \<^verbatim>\<open>_current\<close>, so both are \<open>real option\<close> with \<open>None\<close> for Python's \<^verbatim>\<open>None\<close>.
  \<open>d_finished\<close> is the attribute \<^verbatim>\<open>finished\<close>, which the class does not declare: it exists
  only once something assigns it. \<open>beingCancelled\<close> is the flag of the job's
  \<^verbatim>\<open>ReleaseDownloadThread\<close>. \<open>iso_calls\<close> lists the arguments of the calls
  \<^verbatim>\<open>self._live.set_iso(value)\<close> made by the path setter, the backend being external.
\<close>

record ReleaseDownload =
  d_running :: bool
  d_current :: "real option"
  d_maximum :: "real option"
  d_path :: string
  d_finished :: "bool option"
  beingCancelled :: bool
  iso_calls :: "string list"
  d_emitted :: "signal list"

text \<open>The class attributes a new \<^verbatim>\<open>ReleaseDownload\<close> starts with.\<close>

definition ReleaseDownload_init :: ReleaseDownload where
  "ReleaseDownload_init =
     \<lparr>d_running = False, d_current = Some (- 1), d_maximum = Some (- 1), d_path = [],
      d_finished = None, beingCancelled = False, iso_calls = [], d_emitted = []\<rparr>"



definition ReleaseDownload_start :: "real option \<Rightarrow> ReleaseDownload \<Rightarrow> ReleaseDownload" where
  "ReleaseDownload_start sz d =
     d\<lparr>d_maximum := sz, d_running := True,
       d_emitted := d_emitted d @ [MaximumChanged, RunningChanged]\<rparr>"

text \<open>
  \<^verbatim>\<open>update\<close> compares \<^verbatim>\<open>self._current < amount_read\<close>. When \<^verbatim>\<open>_current\<close> is \<^verbatim>\<open>None\<close>
  Python 3 raises \<^verbatim>\<open>TypeError\<close> at the comparison.
\<close>

definition ReleaseDownload_update :: "real \<Rightarrow> ReleaseDownload \<Rightarrow> py_error + ReleaseDownload" where
  "ReleaseDownload_update amount_read d =
     (case d_current d of
        None \<Rightarrow> Inl TypeError
      | Some c \<Rightarrow>
          Inr (if c < amount_read
               then d\<lparr>d_current := Some amount_read,
                      d_emitted := d_emitted d @ [CurrentChanged]\<rparr>
               else d))"

definition ReleaseDownload_end :: "ReleaseDownload \<Rightarrow> ReleaseDownload" where
  "ReleaseDownload_end d =
     d\<lparr>d_current := d_maximum d, d_running := False,
       d_emitted := d_emitted d @ [CurrentChanged, RunningChanged]\<rparr>"


text \<open>
  A run of \<^verbatim>\<open>update\<close> calls, as the fetch callback makes them: \<open>observed\<close> is the value
  of \<^verbatim>\<open>_current\<close> read after each call. A call that raises ends the run, so the list is
  as long as the input exactly when no call raised.
\<close>

fun observed :: "real list \<Rightarrow> ReleaseDownload \<Rightarrow> real option list" where
  "observed [] d = []"
| "observed (v # vs) d =
     (case ReleaseDownload_update v d of
        Inl e \<Rightarrow> []
      | Inr d' \<Rightarrow> d_current d' # observed vs d')"


section \<open>ReleaseWriter and its worker thread\<close>

record ReleaseWriter =
  w_running :: bool
  w_current :: real
  w_status :: string
  w_finished :: bool
  w_emitted :: "signal list"

definition ReleaseWriter_init :: ReleaseWriter where
  "ReleaseWriter_init =
     \<lparr>w_running = False, w_current = - 1, w_status = [], w_finished = False, w_emitted = []\<rparr>"

definition ReleaseWriter_reset :: "ReleaseWriter \<Rightarrow> ReleaseWriter" where
  "ReleaseWriter_reset w =
     w\<lparr>w_running := False, w_current := - 1,
       w_emitted := w_emitted w @ [RunningChanged, CurrentChanged]\<rparr>"

text \<open>The four property setters: each assigns and notifies only when the value differs.\<close>

definition ReleaseWriter_running_set :: "bool \<Rightarrow> ReleaseWriter \<Rightarrow> ReleaseWriter" where
  "ReleaseWriter_running_set v w =
     (if w_running w \<noteq> v
      then w\<lparr>w_running := v, w_emitted := w_emitted w @ [RunningChanged]\<rparr> else w)"

definition ReleaseWriter_progress_set :: "real \<Rightarrow> ReleaseWriter \<Rightarrow> ReleaseWriter" where
  "ReleaseWriter_progress_set v w =
     (if v \<noteq> w_current w
      then w\<lparr>w_current := v, w_emitted := w_emitted w @ [CurrentChanged]\<rparr> else w)"

definition ReleaseWriter_status_set :: "string \<Rightarrow> ReleaseWriter \<Rightarrow> ReleaseWriter" where
  "ReleaseWriter_status_set v w =
     (if w_status w \<noteq> v
      then w\<lparr>w_status := v, w_emitted := w_emitted w @ [StatusChanged]\<rparr> else w)"

definition ReleaseWriter_finished_set :: "bool \<Rightarrow> ReleaseWriter \<Rightarrow> ReleaseWriter" where
  "ReleaseWriter_finished_set v w =
     (if w_finished w \<noteq> v
      then w\<lparr>w_finished := v, w_emitted := w_emitted w @ [FinishedChanged]\<rparr> else w)"

text \<open>
  \<^verbatim>\<open>ReleaseWriter.run\<close>, up to \<^verbatim>\<open>self.worker.start()\<close>: what the worker does once started
  is \<open>ReleaseWriterThread_run\<close> below.
\<close>

definition ReleaseWriter_run :: "ReleaseWriter \<Rightarrow> ReleaseWriter" where
  "ReleaseWriter_run w =
     ReleaseWriter_status_set ''Writing''
       (w\<lparr>w_running := True, w_current := 0,
          w_emitted := w_emitted w @ [RunningChanged, CurrentChanged]\<rparr>)"

section \<open>Release: one catalogue entry, with its jobs and messages\<close>

text \<open>
  Of the descriptor \<^verbatim>\<open>_data\<close> only \<^verbatim>\<open>_data['source']\<close> is kept, which \<^verbatim>\<open>category\<close> reads.
  The three message lists hold strings.
\<close>

record Release =
  source :: string
  r_info :: "string list"
  r_warning :: "string list"
  r_error :: "string list"
  download :: ReleaseDownload
  writer :: ReleaseWriter
  r_emitted :: "signal list"

definition addInfo :: "string \<Rightarrow> Release \<Rightarrow> Release" where
  "addInfo v r =
     (if v \<notin> set (r_info r)
      then r\<lparr>r_info := r_info r @ [v], r_emitted := r_emitted r @ [InfoChanged]\<rparr> else r)"

definition addWarning :: "string \<Rightarrow> Release \<Rightarrow> Release" where
  "addWarning v r =
     (if v \<notin> set (r_warning r)
      then r\<lparr>r_warning := r_warning r @ [v], r_emitted := r_emitted r @ [WarningChanged]\<rparr>
      else r)"

text \<open>
  \<^verbatim>\<open>addError\<close> tests \<^verbatim>\<open>value not in self._error\<close> on the value as it is and appends
  \<^verbatim>\<open>str(value)\<close>.
\<close>

definition addError :: "py_value \<Rightarrow> Release \<Rightarrow> Release" where
  "addError v r =
     (if \<not> py_in v (r_error r)
      then r\<lparr>r_error := r_error r @ [py_str v], r_emitted := r_emitted r @ [ErrorChanged]\<rparr>
      else r)"

text \<open>
  \<^verbatim>\<open>Release.__init__\<close>, for the fields kept: the warning about the destructive install is
  added through \<^verbatim>\<open>addWarning\<close> (its text, localised, is the parameter), then the two jobs
  are created.
\<close>

definition Release_init :: "string \<Rightarrow> string \<Rightarrow> Release" where
  "Release_init src warning_text =
     (addWarning warning_text
        \<lparr>source = src, r_info = [], r_warning = [], r_error = [],
         download = ReleaseDownload_init, writer = ReleaseWriter_init, r_emitted = []\<rparr>)"

text \<open>
  \<^verbatim>\<open>Release.write\<close>. The information text is built from the configuration file, which is
  not part of the program: it is the parameter \<open>info_text\<close>.
\<close>

definition Release_write :: "string \<Rightarrow> Release \<Rightarrow> Release" where
  "Release_write info_text r =
     (let r1 = r\<lparr>r_info := [], r_warning := [], r_error := [],
                 r_emitted := r_emitted r @ [InfoChanged, ErrorChanged, WarningChanged]\<rparr>;
          r2 = addInfo info_text r1
      in r2\<lparr>writer := ReleaseWriter_run (writer r2)\<rparr>)"

definition readyToWrite :: "Release \<Rightarrow> bool" where
  "readyToWrite r \<longleftrightarrow> length (d_path (download r)) \<noteq> 0"

text \<open>
  The getter of \<^verbatim>\<open>status\<close>. It assigns nothing and emits nothing, so it is a function of
  the entry alone. \<open>tr\<close> is the localisation function \<^verbatim>\<open>_\<close>, imported from a module that
  is not part of the sources.
\<close>

definition status :: "(string \<Rightarrow> string) \<Rightarrow> Release \<Rightarrow> string" where
  "status tr r =
     (if \<not> w_finished (writer r) \<and> \<not> d_running (download r) \<and> \<not> readyToWrite r
          \<and> \<not> w_running (writer r) \<and> length (r_error r) = 0
      then tr ''Starting''
      else if d_running (download r) then tr ''Downloading''
      else if length (r_error r) > 0 then tr ''Error''
      else if readyToWrite r \<and> \<not> w_running (writer r) \<and> \<not> w_finished (writer r)
      then tr ''Ready to write''
      else if w_status (writer r) \<noteq> [] then w_status (writer r)
      else tr ''Finished'')"

text \<open>
  The write primitive \<^verbatim>\<open>live.dd_image(callback)\<close> is external. What the thread sees of one
  call is the progress values it passes to the callback, in order, and how it ends: it
  returns, or it raises an exception, of which the thread reads the tuple \<^verbatim>\<open>args\<close>.
\<close>

datatype dd_result = Returned | Raised "py_value list"

text \<open>
  \<^verbatim>\<open>ddImage\<close>: the callback is \<^verbatim>\<open>update_progress\<close>, which assigns \<^verbatim>\<open>parent.progress\<close>. The
  first component is the \<^verbatim>\<open>args\<close> of the exception that leaves the method, if any; the two
  assignments after the primitive are skipped then.
\<close>

definition ddImage :: "real list \<Rightarrow> dd_result \<Rightarrow> Release \<Rightarrow> py_value list option \<times> Release" where
  "ddImage ps res r =
     (let r1 = r\<lparr>writer := fold ReleaseWriter_progress_set ps (writer r)\<rparr>
      in case res of
           Raised args \<Rightarrow> (Some args, r1)
         | Returned \<Rightarrow>
             (None, r1\<lparr>writer := ReleaseWriter_finished_set True
                                   (ReleaseWriter_status_set ''Finished!'' (writer r1))\<rparr>))"

text \<open>
  \<^verbatim>\<open>ReleaseWriterThread.run\<close>: the handler catches every \<^verbatim>\<open>Exception\<close> and passes
  \<^verbatim>\<open>e.args[0]\<close> to \<^verbatim>\<open>addError\<close> (then the exception to the backend's log, which is not
  modelled). When \<^verbatim>\<open>args\<close> is empty the read \<^verbatim>\<open>e.args[0]\<close> raises \<^verbatim>\<open>IndexError\<close> inside the
  handler, which leaves \<^verbatim>\<open>run\<close> before \<^verbatim>\<open>self.parent.running = False\<close>. Otherwise
  \<^verbatim>\<open>running\<close> is cleared, on both paths.
\<close>

definition ReleaseWriterThread_run ::
    "real list \<Rightarrow> dd_result \<Rightarrow> Release \<Rightarrow> py_error option \<times> Release" where
  "ReleaseWriterThread_run ps res r =
     (case ddImage ps res r of
        (Some args, r1) \<Rightarrow>
          (case args of
             [] \<Rightarrow> (Some IndexError, r1)
           | a # rest \<Rightarrow>
               (let r2 = addError a r1
                in (None, r2\<lparr>writer := ReleaseWriter_running_set False (writer r2)\<rparr>)))
      | (None, r1) \<Rightarrow> (None, r1\<lparr>writer := ReleaseWriter_running_set False (writer r1)\<rparr>))"

subsection \<open>The decision table of the specification\<close>

text \<open>
  The specification derives the status from a snapshot of six values, by a table of
  rows read top down, the first row whose condition holds giving the result.
\<close>

record snapshot =
  writerFinished :: bool
  downloaderRunning :: bool
  isReadyToWrite :: bool
  writerRunning :: bool
  errorListEmpty :: bool
  writerStatus :: string

definition snapshot_of :: "Release \<Rightarrow> snapshot" where
  "snapshot_of r =
     \<lparr>writerFinished = w_finished (writer r), downloaderRunning = d_running (download r),
      isReadyToWrite = readyToWrite r, writerRunning = w_running (writer r),
      errorListEmpty = (r_error r = []), writerStatus = w_status (writer r)\<rparr>"

definition decision_table :: "(string \<Rightarrow> string) \<Rightarrow> snapshot \<Rightarrow> (bool \<times> string) list" where
  "decision_table tr s =
     [(\<not> writerFinished s \<and> \<not> downloaderRunning s \<and> \<not> isReadyToWrite s
         \<and> \<not> writerRunning s \<and> errorListEmpty s, tr ''Starting''),
      (downloaderRunning s, tr ''Downloading''),
      (\<not> errorListEmpty s, tr ''Error''),
      (isReadyToWrite s \<and> \<not> writerRunning s \<and> \<not> writerFinished s, tr ''Ready to write''),
      (writerStatus s \<noteq> [], writerStatus s),
      (True, tr ''Finished'')]"

fun first_match :: "(bool \<times> 'a) list \<Rightarrow> 'a option" where
  "first_match [] = None"
| "first_match ((c, v) # rows) = (if c then Some v else first_match rows)"

section \<open>ReleaseListProxy: the indexed accessor of the catalogue view\<close>

text \<open>
  \<^verbatim>\<open>category\<close> tests the source against \<^verbatim>\<open>CONFIG['CATEGORIES']['main']\<close>, a value of the
  configuration file: the parameter \<open>main_categories\<close>.
\<close>

definition category :: "(string \<Rightarrow> string) \<Rightarrow> string list \<Rightarrow> Release \<Rightarrow> string" where
  "category tr main_categories r =
     (if source r \<in> set main_categories then ''main''
      else if source r = ''Spins''
      then tr ''<b>Fedora Spins </b> &nbsp; Alternative desktops for Fedora''
      else if source r = ''Labs''
      then tr ''<b>Fedora Labs </b> &nbsp; Functional bundles for Fedora''
      else ''<b>Other</b>'')"

text \<open>
  \<^verbatim>\<open>get(i)\<close> over the list \<^verbatim>\<open>releaseData\<close> of the owner; \<open>None\<close> is Python's \<^verbatim>\<open>None\<close>. The index
  is read only after the range test, so no read is out of range.
\<close>

definition ReleaseListProxy_get ::
    "(string \<Rightarrow> string) \<Rightarrow> string list \<Rightarrow> Release list \<Rightarrow> int \<Rightarrow> Release option" where
  "ReleaseListProxy_get tr main_categories rd i =
     (if i < 0 \<or> i \<ge> int (length rd) then None
      else if category tr main_categories (rd ! nat i) = [] then None
      else Some (rd ! nat i))"

section \<open>USB drives and LiveUSBData\<close>

text \<open>
  Modelled from the spec: the backend object \<^verbatim>\<open>live\<close> and the drive descriptions it
  hands out belong to the package \<^verbatim>\<open>liveusb\<close>, which is not among the sources. A
  description carries the four attributes the front end reads (device identifier,
  friendly name, size in bytes, the ISO 9660 mark). Of the backend the model keeps the
  attribute \<^verbatim>\<open>drive\<close>, the link to the target drive, as a plain attribute that holds what
  was assigned last, and the dictionary \<^verbatim>\<open>drives\<close> as the list of its items.
\<close>

record DriveInfo =
  device :: string
  friendlyName :: string
  size_info :: int
  isIso9660 :: bool

text \<open>
  The front end assigns three kinds of value to \<^verbatim>\<open>live.drive\<close>: \<^verbatim>\<open>None\<close>, a device
  identifier (in the setter of \<^verbatim>\<open>currentDrive\<close>) and a whole description (in
  \<^verbatim>\<open>USBDeviceCallback\<close>). \<open>truthy\<close> is Python's truth value of the attribute.
\<close>

datatype drive_link = Device string | Info DriveInfo

fun truthy :: "drive_link option \<Rightarrow> bool" where
  "truthy None = False"
| "truthy (Some (Device dev)) = (dev \<noteq> [])"
| "truthy (Some (Info i)) = True"

record LiveUSBCreator =
  l_drive :: "drive_link option"
  l_drives :: "(string \<times> DriveInfo) list"

record USBDrive =
  u_name :: string
  u_drive :: DriveInfo
  u_beingRestored :: bool

definition USBDrive_init :: "string \<Rightarrow> DriveInfo \<Rightarrow> USBDrive" where
  "USBDrive_init name drive = \<lparr>u_name = name, u_drive = drive, u_beingRestored = False\<rparr>"

text \<open>
  \<^verbatim>\<open>USBDrive\<close> objects are shared: \<^verbatim>\<open>_driveToRestore\<close> refers to an element of
  \<^verbatim>\<open>_usbDrives\<close>, and the class defines no \<^verbatim>\<open>__eq__\<close>, so two of them are equal only when
  they are the same object. The model therefore keeps the objects in a store,
  \<open>objects\<close>, where a reference is a position and a new object is appended, and
  \<^verbatim>\<open>_usbDrives\<close> and \<^verbatim>\<open>_driveToRestore\<close> hold references.
\<close>

record LiveUSBData =
  objects :: "USBDrive list"
  usbDrives :: "nat list"
  currentDrive :: int
  driveToRestore :: "nat option"
  live :: LiveUSBCreator
  releaseData :: "Release list"
  emitted :: "signal list"

text \<open>Python's \<^verbatim>\<open>xs[i]\<close>: a negative index counts from the end; \<open>None\<close> is \<^verbatim>\<open>IndexError\<close>.\<close>

definition py_get :: "'a list \<Rightarrow> int \<Rightarrow> 'a option" where
  "py_get xs i =
     (if 0 \<le> i \<and> i < int (length xs) then Some (xs ! nat i)
      else if - int (length xs) \<le> i \<and> i < 0 then Some (xs ! nat (int (length xs) + i))
      else None)"

text \<open>
  The end of the setter of \<^verbatim>\<open>currentDrive\<close>: the signal, then the loop
  \<^verbatim>\<open>for r in self.releaseData: r.download.finished = False\<close>. The assignment goes to the
  download job of each entry, where it creates or overwrites the attribute \<^verbatim>\<open>finished\<close>.
\<close>

definition selection_changed :: "LiveUSBData \<Rightarrow> LiveUSBData" where
  "selection_changed s =
     s\<lparr>emitted := emitted s @ [CurrentDriveChanged],
       releaseData :=
         map (\<lambda>r. r\<lparr>download := (download r)\<lparr>d_finished := Some False\<rparr>\<rparr>) (releaseData s)\<rparr>"

text \<open>
  The setter of \<^verbatim>\<open>currentDrive\<close>. \<^verbatim>\<open>_currentDrive\<close> is assigned before
  \<^verbatim>\<open>self._usbDrives[self._currentDrive]\<close> is read, so when that read raises the new index
  stays.
\<close>

definition currentDrive_set :: "int \<Rightarrow> LiveUSBData \<Rightarrow> py_error option \<times> LiveUSBData" where
  "currentDrive_set v s =
     (if length (usbDrives s) = 0
      then (None, s\<lparr>live := (live s)\<lparr>l_drive := None\<rparr>, currentDrive := - 1,
                     emitted := emitted s @ [CurrentDriveChanged]\<rparr>)
      else
        let val = (if v > int (length (usbDrives s)) then 0 else v)
        in if currentDrive s \<noteq> val
           then
             (let s1 = s\<lparr>currentDrive := val\<rparr>
              in if length (usbDrives s1) > 0
                 then (case py_get (usbDrives s1) (currentDrive s1) of
                         None \<Rightarrow> (Some IndexError, s1)
                       | Some ref \<Rightarrow>
                           (None, selection_changed
                              (s1\<lparr>live := (live s1)
                                   \<lparr>l_drive := Some (Device (device (u_drive (objects s1 ! ref))))\<rparr>\<rparr>)))
                 else (None, selection_changed s1))
           else (None, s))"

text \<open>
  The label of a drive. \<open>fmt v k\<close> stands for the text of \<^verbatim>\<open>'%.1f' % (v / 1000.0 ** k)\<close>,
  a floating-point rendering that is left as a parameter.
\<close>

definition drive_name :: "(int \<Rightarrow> nat \<Rightarrow> string) \<Rightarrow> DriveInfo \<Rightarrow> string" where
  "drive_name fmt info =
     (let name = friendlyName info; usedSize = size_info info
      in if usedSize < 1000 ^ 1 then name @ '' ('' @ fmt usedSize 0 @ '' B)''
         else if usedSize < 1000 ^ 2 then name @ '' ('' @ fmt usedSize 1 @ '' KB)''
         else if usedSize < 1000 ^ 3 then name @ '' ('' @ fmt usedSize 2 @ '' MB)''
         else if usedSize < 1000 ^ 4 then name @ '' ('' @ fmt usedSize 3 @ '' GB)''
         else name @ '' ('' @ fmt usedSize 4 @ '' TB)'')"

text \<open>
  The loop \<^verbatim>\<open>for i, drive in enumerate(self._usbDrives)\<close> of \<^verbatim>\<open>USBDeviceCallback\<close>, over
  the pairs of a position and a reference; \<open>prev\<close> is \<^verbatim>\<open>previouslySelected\<close>.
\<close>

fun select_loop :: "string \<Rightarrow> (nat \<times> nat) list \<Rightarrow> LiveUSBData \<Rightarrow> py_error option \<times> LiveUSBData" where
  "select_loop prev [] s = (None, s)"
| "select_loop prev ((i, ref) # rest) s =
     (let drive = objects s ! ref
      in case (if device (u_drive drive) = prev then currentDrive_set (int i) s else (None, s)) of
           (Some e, s1) \<Rightarrow> (Some e, s1)
         | (None, s1) \<Rightarrow>
             (let s2 = (if isIso9660 (u_drive drive) then s1\<lparr>driveToRestore := Some ref\<rparr> else s1);
                  s3 = (if currentDrive s2 = - 1 \<and> \<not> truthy (l_drive (live s2))
                        then s2\<lparr>live := (live s2)\<lparr>l_drive := Some (Info (u_drive drive))\<rparr>\<rparr>
                        else s2)
              in select_loop prev rest s3))"

text \<open>The test \<^verbatim>\<open>self._driveToRestore and self._driveToRestore.beingRestored\<close>.\<close>

definition restoring :: "LiveUSBData \<Rightarrow> bool" where
  "restoring s =
     (case driveToRestore s of
        None \<Rightarrow> False
      | Some ref \<Rightarrow> u_beingRestored (objects s ! ref))"

text \<open>
  \<^verbatim>\<open>USBDeviceCallback\<close>, one reconciliation pass. The new \<^verbatim>\<open>USBDrive\<close> objects are created
  in the store, so their references are the positions after the last one in use, and
  \<^verbatim>\<open>tmpDrives != self._usbDrives\<close> compares two lists of references.
\<close>

definition USBDeviceCallback ::
    "(int \<Rightarrow> nat \<Rightarrow> string) \<Rightarrow> LiveUSBData \<Rightarrow> py_error option \<times> LiveUSBData" where
  "USBDeviceCallback fmt s =
     (case (if length (usbDrives s) > 0
            then map_option (\<lambda>ref. device (u_drive (objects s ! ref)))
                   (py_get (usbDrives s) (currentDrive s))
            else Some []) of
        None \<Rightarrow> (Some IndexError, s)
      | Some previouslySelected \<Rightarrow>
          if restoring s then (None, s)
          else
            (let new = map (\<lambda>(drive, info). USBDrive_init (drive_name fmt info) info)
                         (l_drives (live s));
                 tmpDrives = [length (objects s) ..< length (objects s) + length new];
                 s0 = s\<lparr>objects := objects s @ new\<rparr>
             in if tmpDrives \<noteq> usbDrives s0
                then
                  (let s1 = s0\<lparr>usbDrives := tmpDrives,
                               emitted := emitted s0 @ [UsbDrivesChanged],
                               driveToRestore := None\<rparr>
                   in case currentDrive_set (- 1) s1 of
                        (Some e, s2) \<Rightarrow> (Some e, s2)
                      | (None, s2) \<Rightarrow>
                          (case select_loop previouslySelected
                                  (zip [0 ..< length (usbDrives s2)] (usbDrives s2)) s2 of
                             (Some e, s3) \<Rightarrow> (Some e, s3)
                           | (None, s3) \<Rightarrow>
                               (None, s3\<lparr>emitted := emitted s3
                                           @ [CurrentDriveChanged, DriveToRestoreChanged]\<rparr>)))
                else (None, s0)))"

section \<open>Example states\<close>

text \<open>
  The states at which the theorems below are evaluated. \<open>writing_entry\<close> is an entry on
  which \<^verbatim>\<open>write()\<close> has been called; \<open>downloading_entry\<close> is the same with its download
  started first. \<open>downloaded_job\<close> is a download job that has received the path of its
  file. \<open>entry_written\<close> is an entry whose image has been written.
\<close>

definition local_entry :: Release where
  "local_entry = Release_init ''Local'' ''You are about to perform a destructive install.''"

definition spins_entry :: Release where
  "spins_entry = addInfo ''note'' (Release_init ''Spins'' ''You are about to perform a destructive install.'')"

definition writing_entry :: Release where
  "writing_entry = Release_write ''You can restore your flash drive later.'' local_entry"

definition downloading_entry :: Release where
  "downloading_entry =
     Release_write ''You can restore your flash drive later.''
       (local_entry\<lparr>download := ReleaseDownload_start (Some 1000000) (download local_entry)\<rparr>)"


definition entry_written :: Release where
  "entry_written =
     local_entry\<lparr>writer := ReleaseWriter_init\<lparr>w_status := ''Finished!'', w_finished := True\<rparr>\<rparr>"

text \<open>
  An 8 GB stick, for which \<^verbatim>\<open>'%.1f' % (8000000000 / 1000.0 ** 3)\<close> is \<^verbatim>\<open>8.0\<close>, and
  inventories of three drives and of one drive, the first drive selected.
\<close>

definition stick :: "string \<Rightarrow> DriveInfo" where
  "stick dev =
     \<lparr>device = dev, friendlyName = ''USB Stick'', size_info = 8000000000, isIso9660 = False\<rparr>"

definition three_drives :: LiveUSBData where
  "three_drives =
     \<lparr>objects = [USBDrive_init ''USB Stick (8.0 GB)'' (stick ''/dev/sdb''),
                 USBDrive_init ''USB Stick (8.0 GB)'' (stick ''/dev/sdc''),
                 USBDrive_init ''USB Stick (8.0 GB)'' (stick ''/dev/sdd'')],
      usbDrives = [0, 1, 2], currentDrive = 0, driveToRestore = None,
      live = \<lparr>l_drive = Some (Device ''/dev/sdb''),
               l_drives = [(''/dev/sdb'', stick ''/dev/sdb''), (''/dev/sdc'', stick ''/dev/sdc''),
                           (''/dev/sdd'', stick ''/dev/sdd'')]\<rparr>,
      releaseData = [entry_written], emitted = []\<rparr>"

definition one_drive :: LiveUSBData where
  "one_drive =
     \<lparr>objects = [USBDrive_init ''USB Stick (8.0 GB)'' (stick ''/dev/sdb'')],
      usbDrives = [0], currentDrive = 0, driveToRestore = None,
      live = \<lparr>l_drive = Some (Device ''/dev/sdb''),
               l_drives = [(''/dev/sdb'', stick ''/dev/sdb'')]\<rparr>,
      releaseData = [], emitted = []\<rparr>"

text \<open>
  A written stick that is being restored, while the backend already reports a second
  drive.
\<close>

definition restoring_drive :: LiveUSBData where
  "restoring_drive =
     \<lparr>objects = [(USBDrive_init ''USB Stick (8.0 GB)''
                    ((stick ''/dev/sdb'')\<lparr>isIso9660 := True\<rparr>))\<lparr>u_beingRestored := True\<rparr>],
      usbDrives = [0], currentDrive = 0, driveToRestore = Some 0,
      live = \<lparr>l_drive = Some (Device ''/dev/sdb''),
               l_drives = [(''/dev/sdb'', (stick ''/dev/sdb'')\<lparr>isIso9660 := True\<rparr>),
                           (''/dev/sdc'', stick ''/dev/sdc'')]\<rparr>,
      releaseData = [], emitted = []\<rparr>"

section \<open>Progress of a download\<close>

lemma update_current:
  "d_current d = Some c \<Longrightarrow>
     \<exists>d'. ReleaseDownload_update v d = Inr d' \<and> d_current d' = Some (max c v)"
  by (auto simp: ReleaseDownload_update_def max_def)

lemma observed_length:
  "d_current d = Some c \<Longrightarrow> length (observed vs d) = length vs"
proof (induction vs arbitrary: d c)
  case Nil
  show ?case by simp
next
  case (Cons v vs)
  from update_current [OF Cons.prems, of v] obtain d'
    where d': "ReleaseDownload_update v d = Inr d'" "d_current d' = Some (max c v)"
    by blast
  from Cons.IH [OF d'(2)] d'(1) show ?case by simp
qed

lemma observed_nth:
  "d_current d = Some c \<Longrightarrow> k < length vs \<Longrightarrow>
     observed vs d ! k = Some (Max (insert c (set (take (Suc k) vs))))"
proof (induction vs arbitrary: d c k)
  case Nil
  then show ?case by simp
next
  case (Cons v vs)
  from update_current [OF Cons.prems(1), of v] obtain d'
    where d': "ReleaseDownload_update v d = Inr d'" "d_current d' = Some (max c v)"
    by blast
  show ?case
  proof (cases k)
    case 0
    with d' show ?thesis by (simp add: max.commute)
  next
    case (Suc j)
    with Cons.prems have j: "j < length vs" by simp
    from j have ne: "set (take (Suc j) vs) \<noteq> {}"
      by (cases vs) simp_all
    have "Max (insert (max c v) (set (take (Suc j) vs)))
            = Max (insert c (insert v (set (take (Suc j) vs))))"
      using ne by (simp add: max.assoc)
    with Cons.IH [OF d'(2) j] d'(1) Suc show ?thesis by simp
  qed
qed

lemma observed_sorted:
  "d_current d = Some c \<Longrightarrow> sorted (c # map the (observed vs d))"
proof (induction vs arbitrary: d c)
  case Nil
  show ?case by simp
next
  case (Cons v vs)
  from update_current [OF Cons.prems, of v] obtain d'
    where d': "ReleaseDownload_update v d = Inr d'" "d_current d' = Some (max c v)"
    by blast
  from Cons.IH [OF d'(2)] have s: "sorted (max c v # map the (observed vs d'))" .
  then have "\<forall>x \<in> set (map the (observed vs d')). c \<le> x"
    by (auto simp: max_def split: if_splits)
  with s d' show ?case by simp
qed

text \<open>
  C7. For a job whose \<^verbatim>\<open>_current\<close> is a number \<open>c\<close>, any run of \<^verbatim>\<open>update\<close> calls with the
  amounts \<open>vs\<close>, in whatever order and with whatever repetitions, completes without raising;
  the value observed after the call number \<open>k\<close> is the maximum of \<open>c\<close> and the amounts seen
  up to that call; and the observed values, starting from \<open>c\<close>, never decrease.
\<close>

theorem update_observes_running_maximum:
  assumes "d_current d = Some c"
  shows "length (observed vs d) = length vs
       \<and> (\<forall>k < length vs. observed vs d ! k = Some (Max (insert c (set (take (Suc k) vs)))))
       \<and> sorted (c # map the (observed vs d))"
  using assms observed_length observed_nth observed_sorted by blast

theorem update_observes_running_maximum_witness:
  "d_current ReleaseDownload_init = Some (- 1)
   \<and> observed [500000, 1000000, 500000, 1000000] ReleaseDownload_init
       = [Some 500000, Some 1000000, Some 1000000, Some 1000000]
   \<and> sorted (- 1 # map the (observed [500000, 1000000, 500000, 1000000] ReleaseDownload_init))"
proof -
  have h: "d_current ReleaseDownload_init = Some (- 1)"
    by (simp add: ReleaseDownload_init_def)
  have o: "observed [500000, 1000000, 500000, 1000000] ReleaseDownload_init
             = [Some 500000, Some 1000000, Some 1000000, Some 1000000]"
    by (simp add: ReleaseDownload_init_def ReleaseDownload_update_def)
  from update_observes_running_maximum [OF h, of "[500000, 1000000, 500000, 1000000]"]
  have "sorted (- 1 # map the (observed [500000, 1000000, 500000, 1000000] ReleaseDownload_init))"
    by blast
  with h o show ?thesis by blast
qed

text \<open>
  C7 as stated fails for a job whose \<^verbatim>\<open>_current\<close> is not a number: after \<^verbatim>\<open>start()\<close> with
  no size and \<^verbatim>\<open>end()\<close> it is \<^verbatim>\<open>None\<close>, and the next \<^verbatim>\<open>update\<close> raises at the comparison,
  so that no value is observed after the call.
\<close>

theorem update_after_end_without_size:
  "d_current (ReleaseDownload_end (ReleaseDownload_start None ReleaseDownload_init)) = None
   \<and> ReleaseDownload_update 5 (ReleaseDownload_end (ReleaseDownload_start None ReleaseDownload_init))
       = Inl TypeError
   \<and> observed [5] (ReleaseDownload_end (ReleaseDownload_start None ReleaseDownload_init)) = []"
  by (simp add: ReleaseDownload_update_def ReleaseDownload_end_def ReleaseDownload_start_def
        ReleaseDownload_init_def)

section \<open>The end of a download, and cancelling a job\<close>

text \<open>
  C8, as the code has it. \<^verbatim>\<open>end()\<close> marks the job not running and assigns the stored
  maximum to \<^verbatim>\<open>_current\<close> in every case, leaving the maximum as it was. So after
  \<^verbatim>\<open>start()\<close> with no size, where the maximum is \<^verbatim>\<open>None\<close>, the current value becomes
  \<^verbatim>\<open>None\<close> too.
\<close>

theorem end_copies_maximum:
  "\<not> d_running (ReleaseDownload_end d)
   \<and> d_current (ReleaseDownload_end d) = d_maximum d
   \<and> d_maximum (ReleaseDownload_end d) = d_maximum d
   \<and> d_path (ReleaseDownload_end d) = d_path d
   \<and> d_current (ReleaseDownload_end (ReleaseDownload_start None d)) = None"
  by (simp add: ReleaseDownload_end_def ReleaseDownload_start_def)

text \<open>
  C8 as stated fails: a job started with no size and updated to 500 has an unknown
  maximum and the current value 500; \<^verbatim>\<open>end()\<close> does not leave that value alone, it
  replaces it by \<^verbatim>\<open>None\<close>.
\<close>

theorem end_unknown_maximum_changes_current:
  "(case ReleaseDownload_update 500 (ReleaseDownload_start None ReleaseDownload_init) of
      Inl e \<Rightarrow> False
    | Inr d \<Rightarrow> d_maximum d = None \<and> d_current d = Some 500
               \<and> d_current (ReleaseDownload_end d) = None
               \<and> d_current (ReleaseDownload_end d) \<noteq> d_current d)"
  by (simp add: ReleaseDownload_update_def ReleaseDownload_start_def ReleaseDownload_init_def
        ReleaseDownload_end_def)




section \<open>The derived status\<close>

text \<open>Every snapshot of the six values is the snapshot of some entry.\<close>

lemma every_snapshot_is_read:
  "\<exists>r. snapshot_of r = snap"
proof
  show "snapshot_of
          \<lparr>source = [], r_info = [], r_warning = [],
           r_error = (if errorListEmpty snap then [] else [''disk full'']),
           download = ReleaseDownload_init
             \<lparr>d_running := downloaderRunning snap,
              d_path := (if isReadyToWrite snap then ''/tmp/foo.iso'' else [])\<rparr>,
           writer = \<lparr>w_running = writerRunning snap, w_current = 0,
                     w_status = writerStatus snap, w_finished = writerFinished snap,
                     w_emitted = []\<rparr>,
           r_emitted = []\<rparr> = snap"
    by (cases snap) (simp add: snapshot_of_def readyToWrite_def)
qed

text \<open>
  C1. For every entry, the status read from it is the result of the first row of the
  specification's decision table whose condition holds on the entry's snapshot
  (Starting, Downloading, Error, Ready to write, the writer's status as it is, Finished,
  the fixed texts passed through the localisation function). The getter changes nothing,
  and two entries with the same snapshot, hence also two reads of one entry, give the
  same status.
\<close>

theorem status_follows_decision_table:
  "first_match (decision_table tr (snapshot_of r)) = Some (status tr r)
   \<and> (\<forall>r'. snapshot_of r' = snapshot_of r \<longrightarrow> status tr r' = status tr r)"
proof -
  have eq: "\<And>x. first_match (decision_table tr (snapshot_of x)) = Some (status tr x)"
    by (simp add: decision_table_def snapshot_of_def status_def)
  have "status tr r' = status tr r" if same: "snapshot_of r' = snapshot_of r" for r'
  proof -
    from same have "first_match (decision_table tr (snapshot_of r'))
                      = first_match (decision_table tr (snapshot_of r))"
      by simp
    then show ?thesis by (simp only: eq option.inject)
  qed
  with eq show ?thesis by blast
qed

theorem status_follows_decision_table_witness:
  "snapshot_of spins_entry = snapshot_of local_entry
   \<and> spins_entry \<noteq> local_entry
   \<and> first_match (decision_table (\<lambda>t. t) (snapshot_of local_entry)) = Some ''Starting''
   \<and> status (\<lambda>t. t) spins_entry = ''Starting''"
proof -
  have same: "snapshot_of spins_entry = snapshot_of local_entry"
    by (simp add: snapshot_of_def spins_entry_def local_entry_def Release_init_def
          addWarning_def addInfo_def readyToWrite_def)
  have differ: "spins_entry \<noteq> local_entry"
    by (simp add: spins_entry_def local_entry_def Release_init_def addWarning_def addInfo_def)
  have start: "status (\<lambda>t. t) local_entry = ''Starting''"
    by (simp add: status_def local_entry_def Release_init_def addWarning_def readyToWrite_def
          ReleaseDownload_init_def ReleaseWriter_init_def)
  from status_follows_decision_table [of "\<lambda>t. t" local_entry] same start
  have "first_match (decision_table (\<lambda>t. t) (snapshot_of local_entry)) = Some ''Starting''"
    and "status (\<lambda>t. t) spins_entry = ''Starting''"
    by simp_all
  with same differ show ?thesis by blast
qed

section \<open>A write that fails\<close>

lemma fold_progress_keeps:
  "w_running (fold ReleaseWriter_progress_set ps w) = w_running w
   \<and> w_status (fold ReleaseWriter_progress_set ps w) = w_status w
   \<and> w_finished (fold ReleaseWriter_progress_set ps w) = w_finished w"
  by (induction ps arbitrary: w) (simp_all add: ReleaseWriter_progress_set_def)

lemma addError_again:
  "v \<in> set (r_error r) \<Longrightarrow> (addError (PyStr v) ^^ n) r = r"
  by (induction n) (simp_all add: addError_def)

lemma addError_distinct:
  "distinct (r_error r) \<Longrightarrow> distinct (r_error (addError (PyStr v) r))"
  by (simp add: addError_def)

lemma distinct_count_le_1:
  "distinct xs \<Longrightarrow> count_list xs m \<le> 1"
  by (induction xs) auto

text \<open>An integer is appended at every report, whatever the list holds.\<close>

lemma addError_integer:
  "r_error (addError (PyInt i) r) = r_error r @ [str_int i]"
  by (simp add: addError_def)

lemma thread_run_raised:
  "ReleaseWriterThread_run ps (Raised (a # rest)) r =
     (let r1 = r\<lparr>writer := fold ReleaseWriter_progress_set ps (writer r)\<rparr>;
          r2 = addError a r1
      in (None, r2\<lparr>writer := ReleaseWriter_running_set False (writer r2)\<rparr>))"
  by (simp add: ReleaseWriterThread_run_def ddImage_def Let_def)

text \<open>
  An exception without arguments: the handler itself raises, nothing is added to the
  error list and \<^verbatim>\<open>running\<close> keeps its value.
\<close>

lemma thread_run_empty_args:
  "fst (ReleaseWriterThread_run ps (Raised []) r) = Some IndexError
   \<and> r_error (snd (ReleaseWriterThread_run ps (Raised []) r)) = r_error r
   \<and> w_running (writer (snd (ReleaseWriterThread_run ps (Raised []) r))) = w_running (writer r)"
  using fold_progress_keeps [of ps "writer r"]
  by (simp add: ReleaseWriterThread_run_def ddImage_def Let_def)

text \<open>
  C6, as the code has it. Take an entry whose download is not running and whose error
  list holds the string \<open>m\<close> at most once. When the write primitive raises an exception
  whose first argument is the string \<open>m\<close>, after any progress reports, and \<open>m\<close> is then
  reported \<open>n\<close> more times, the thread's \<^verbatim>\<open>run\<close> completes, the error list holds \<open>m\<close> exactly
  once, the writer is not running, its \<^verbatim>\<open>finished\<close> flag and its status are those from
  before the run of the thread, and the derived status is Error.
\<close>

theorem failed_write_reports_once:
  assumes "\<not> d_running (download r)"
      and "count_list (r_error r) m \<le> 1"
      and "r' = (addError (PyStr m) ^^ n)
                  (snd (ReleaseWriterThread_run ps (Raised (PyStr m # rest)) r))"
  shows "fst (ReleaseWriterThread_run ps (Raised (PyStr m # rest)) r) = None
       \<and> count_list (r_error r') m = 1
       \<and> \<not> w_running (writer r')
       \<and> w_finished (writer r') = w_finished (writer r)
       \<and> w_status (writer r') = w_status (writer r)
       \<and> status tr r' = tr ''Error''"
proof -
  let ?t = "snd (ReleaseWriterThread_run ps (Raised (PyStr m # rest)) r)"
  have ok: "fst (ReleaseWriterThread_run ps (Raised (PyStr m # rest)) r) = None"
    by (simp add: thread_run_raised Let_def)
  have err: "r_error ?t = (if m \<in> set (r_error r) then r_error r else r_error r @ [m])"
    by (simp add: thread_run_raised Let_def addError_def)
  then have mem: "m \<in> set (r_error ?t)" by simp
  with assms(3) have r': "r' = ?t" by (simp add: addError_again)
  have cnt: "count_list (r_error ?t) m = 1"
  proof (cases "m \<in> set (r_error r)")
    case True
    then have "count_list (r_error r) m > 0"
      using count_list_0_iff [of "r_error r" m] by auto
    with assms(2) err True show ?thesis by simp
  next
    case False
    then have "count_list (r_error r) m = 0"
      using count_list_0_iff [of "r_error r" m] by auto
    with err False show ?thesis by simp
  qed
  have w: "\<not> w_running (writer ?t) \<and> w_finished (writer ?t) = w_finished (writer r)
           \<and> w_status (writer ?t) = w_status (writer r)"
    using fold_progress_keeps [of ps "writer r"]
    by (simp add: thread_run_raised Let_def addError_def ReleaseWriter_running_set_def)
  have dl: "download ?t = download r"
    by (simp add: thread_run_raised Let_def addError_def)
  from mem have ne: "r_error ?t \<noteq> []" by auto
  have "status tr ?t = tr ''Error''"
    using assms(1) ne by (simp add: status_def dl)
  with ok r' cnt w show ?thesis by simp
qed

theorem failed_write_reports_once_witness:
  "\<not> d_running (download writing_entry)
   \<and> count_list (r_error writing_entry) ''disk full'' \<le> 1
   \<and> w_status (writer writing_entry) = ''Writing''
   \<and> r_error ((addError (PyStr ''disk full'') ^^ 1)
        (snd (ReleaseWriterThread_run [1 / 2] (Raised [PyStr ''disk full'']) writing_entry)))
       = [''disk full'']
   \<and> w_status (writer ((addError (PyStr ''disk full'') ^^ 1)
        (snd (ReleaseWriterThread_run [1 / 2] (Raised [PyStr ''disk full'']) writing_entry))))
       = ''Writing''
   \<and> status (\<lambda>t. t) ((addError (PyStr ''disk full'') ^^ 1)
        (snd (ReleaseWriterThread_run [1 / 2] (Raised [PyStr ''disk full'']) writing_entry)))
       = ''Error''"
proof -
  have h1: "\<not> d_running (download writing_entry)"
    by (simp add: writing_entry_def local_entry_def Release_write_def Release_init_def
          addWarning_def addInfo_def ReleaseDownload_init_def Let_def)
  have h2: "count_list (r_error writing_entry) ''disk full'' \<le> 1"
    by (simp add: writing_entry_def local_entry_def Release_write_def Release_init_def
          addWarning_def addInfo_def Let_def)
  have st: "w_status (writer writing_entry) = ''Writing''"
    by (simp add: writing_entry_def local_entry_def Release_write_def Release_init_def
          addWarning_def addInfo_def Let_def ReleaseWriter_run_def ReleaseWriter_status_set_def
          ReleaseWriter_init_def)
  have errs: "r_error ((addError (PyStr ''disk full'') ^^ 1)
        (snd (ReleaseWriterThread_run [1 / 2] (Raised [PyStr ''disk full'']) writing_entry)))
       = [''disk full'']"
    by (simp add: thread_run_raised writing_entry_def local_entry_def Release_write_def
          Release_init_def addWarning_def addInfo_def addError_def Let_def)
  from failed_write_reports_once
         [where n = 1 and ps = "[1 / 2]" and rest = "[]" and tr = "\<lambda>t. t", OF h1 h2 refl]
       h1 h2 st errs
  show ?thesis by simp
qed

text \<open>
  C6 as stated fails in three ways. While the entry's download is running, the write is
  started, the primitive raises with the message, the message is in the error list, and
  the derived status is Downloading, the second row of the table, not Error. When the
  first argument of the exception is the integer 28 (an \<^verbatim>\<open>OSError\<close> for a full disk) and
  it is reported a second time, the error list holds its text twice. And on that list,
  which holds the text twice, a write that fails with the string itself leaves it there
  twice.
\<close>

theorem failed_write_not_as_claimed:
  "d_running (download downloading_entry)
   \<and> r_error (snd (ReleaseWriterThread_run [] (Raised [PyStr ''disk full'']) downloading_entry))
       = [''disk full'']
   \<and> status (\<lambda>t. t)
        (snd (ReleaseWriterThread_run [] (Raised [PyStr ''disk full'']) downloading_entry))
       = ''Downloading''
   \<and> \<not> d_running (download writing_entry)
   \<and> r_error (addError (PyInt 28)
        (snd (ReleaseWriterThread_run []
               (Raised [PyInt 28, PyStr ''No space left on device'']) writing_entry)))
       = [''28'', ''28'']
   \<and> count_list
        (r_error (snd (ReleaseWriterThread_run [] (Raised [PyStr ''28''])
           (addError (PyInt 28)
              (snd (ReleaseWriterThread_run []
                     (Raised [PyInt 28, PyStr ''No space left on device'']) writing_entry))))))
        ''28'' = 2"
  by (simp add: thread_run_raised downloading_entry_def writing_entry_def local_entry_def
        Release_write_def Release_init_def addWarning_def addInfo_def addError_def Let_def
        status_def ReleaseDownload_start_def ReleaseDownload_init_def readyToWrite_def
        str_int_def str_nat.simps)

section \<open>The indexed accessor\<close>

text \<open>
  C10. \<^verbatim>\<open>get(i)\<close> returns the entry at position \<open>i\<close> of \<^verbatim>\<open>releaseData\<close> when
  \<open>0 \<le> i < len\<close>, and \<^verbatim>\<open>None\<close>, without reading the list, for every negative \<open>i\<close> and
  every \<open>i \<ge> len\<close>. The localisation function is assumed to give a non-empty text for the
  two category labels it is applied to, as a message lookup that falls back to the
  message does.
\<close>

theorem get_in_range:
  assumes "tr ''<b>Fedora Spins </b> &nbsp; Alternative desktops for Fedora'' \<noteq> []"
      and "tr ''<b>Fedora Labs </b> &nbsp; Functional bundles for Fedora'' \<noteq> []"
  shows "(0 \<le> i \<and> i < int (length rd) \<longrightarrow>
            ReleaseListProxy_get tr mains rd i = Some (rd ! nat i))
       \<and> (i < 0 \<or> int (length rd) \<le> i \<longrightarrow> ReleaseListProxy_get tr mains rd i = None)"
proof -
  have "\<And>r. category tr mains r \<noteq> []"
    using assms by (simp add: category_def)
  then show ?thesis by (auto simp: ReleaseListProxy_get_def)
qed

theorem get_in_range_witness:
  "(\<lambda>t. t) ''<b>Fedora Spins </b> &nbsp; Alternative desktops for Fedora'' \<noteq> []
   \<and> (\<lambda>t. t) ''<b>Fedora Labs </b> &nbsp; Functional bundles for Fedora'' \<noteq> []
   \<and> ReleaseListProxy_get (\<lambda>t. t) [''Antergos''] [local_entry, spins_entry] 1 = Some spins_entry
   \<and> ReleaseListProxy_get (\<lambda>t. t) [''Antergos''] [local_entry, spins_entry] 2 = None
   \<and> ReleaseListProxy_get (\<lambda>t. t) [''Antergos''] [local_entry, spins_entry] (- 1) = None"
proof -
  have h1: "(\<lambda>t. t) ''<b>Fedora Spins </b> &nbsp; Alternative desktops for Fedora'' \<noteq> []"
    by simp
  have h2: "(\<lambda>t. t) ''<b>Fedora Labs </b> &nbsp; Functional bundles for Fedora'' \<noteq> []"
    by simp
  note g = get_in_range [OF h1 h2, of _ "[local_entry, spins_entry]" "[''Antergos'']"]
  from g [of 1] g [of 2] g [of "- 1"] show ?thesis by simp
qed

section \<open>Selecting a drive\<close>

text \<open>What the setter of \<^verbatim>\<open>currentDrive\<close> does in each range of the requested index.\<close>

lemma setter_empty:
  "usbDrives s = [] \<Longrightarrow>
     fst (currentDrive_set v s) = None
     \<and> currentDrive (snd (currentDrive_set v s)) = - 1
     \<and> l_drive (live (snd (currentDrive_set v s))) = None"
  by (simp add: currentDrive_set_def)

lemma setter_high:
  "usbDrives s \<noteq> [] \<Longrightarrow> int (length (usbDrives s)) < v \<Longrightarrow>
     fst (currentDrive_set v s) = None \<and> currentDrive (snd (currentDrive_set v s)) = 0"
  by (cases "usbDrives s") (auto simp: currentDrive_set_def py_get_def Let_def selection_changed_def)

lemma setter_in_range:
  "- 1 \<le> v \<Longrightarrow> v < int (length (usbDrives s)) \<Longrightarrow>
     fst (currentDrive_set v s) = None \<and> currentDrive (snd (currentDrive_set v s)) = v"
  by (cases "usbDrives s") (auto simp: currentDrive_set_def py_get_def Let_def selection_changed_def)

lemma setter_keeps_writers:
  "map writer (releaseData (snd (currentDrive_set v s))) = map writer (releaseData s)"
  by (simp add: currentDrive_set_def selection_changed_def Let_def comp_def split: option.splits)


lemma setter_keeps_lists:
  "usbDrives (snd (currentDrive_set v s)) = usbDrives s
   \<and> objects (snd (currentDrive_set v s)) = objects s"
  by (simp add: currentDrive_set_def selection_changed_def Let_def split: option.splits)

lemma setter_emitted:
  "\<exists>es. emitted (snd (currentDrive_set v s)) = emitted s @ es"
  by (simp add: currentDrive_set_def selection_changed_def Let_def split: option.splits)

text \<open>
  C2, at the input where the code departs from it. With three drives and the first one
  selected, the request for index 3 passes the guard \<^verbatim>\<open>value > len(self._usbDrives)\<close>:
  \<^verbatim>\<open>_currentDrive\<close> becomes 3 and the read \<^verbatim>\<open>self._usbDrives[3]\<close> raises. The request for
  index -2 is stored as it is.
\<close>

theorem select_index_equal_to_length:
  "length (usbDrives three_drives) = 3
   \<and> fst (currentDrive_set 3 three_drives) = Some IndexError
   \<and> currentDrive (snd (currentDrive_set 3 three_drives)) = 3
   \<and> fst (currentDrive_set (- 2) three_drives) = None
   \<and> currentDrive (snd (currentDrive_set (- 2) three_drives)) = - 2"
  by (simp add: currentDrive_set_def three_drives_def py_get_def selection_changed_def)

text \<open>
  C3, at an input where the code departs from it. With three drives, the first one
  selected and an entry whose writer has finished, selecting the second drive changes
  the index, and the writer's \<^verbatim>\<open>finished\<close> flag is still true afterwards: the loop of
  the setter assigns \<^verbatim>\<open>finished\<close> on the download job of the entry instead.
\<close>

theorem select_other_drive_keeps_finished:
  "map (\<lambda>r. w_finished (writer r)) (releaseData three_drives) = [True]
   \<and> currentDrive three_drives = 0
   \<and> fst (currentDrive_set 1 three_drives) = None
   \<and> currentDrive (snd (currentDrive_set 1 three_drives)) = 1
   \<and> map (\<lambda>r. w_finished (writer r)) (releaseData (snd (currentDrive_set 1 three_drives)))
       = [True]
   \<and> map (\<lambda>r. d_finished (download r)) (releaseData (snd (currentDrive_set 1 three_drives)))
       = [Some False]"
  by (simp add: currentDrive_set_def three_drives_def py_get_def selection_changed_def
        entry_written_def local_entry_def Release_init_def addWarning_def ReleaseWriter_init_def
        ReleaseDownload_init_def)

section \<open>Reconciling the drive inventory\<close>


lemma select_loop_keeps_lists:
  "usbDrives (snd (select_loop prev ps s)) = usbDrives s
   \<and> objects (snd (select_loop prev ps s)) = objects s"
proof (induction ps arbitrary: s)
  case Nil
  show ?case by simp
next
  case (Cons p rest)
  obtain i ref where p: "p = (i, ref)" by (cases p)
  obtain e s1 where set: "currentDrive_set (int i) s = (e, s1)"
    by (cases "currentDrive_set (int i) s")
  with setter_keeps_lists [of "int i" s]
  have k: "usbDrives s1 = usbDrives s" "objects s1 = objects s" by simp_all
  show ?case
    using Cons.IH k by (cases e) (simp_all add: p set Let_def)
qed

lemma select_loop_emitted:
  "\<exists>es. emitted (snd (select_loop prev ps s)) = emitted s @ es"
proof (induction ps arbitrary: s)
  case Nil
  show ?case by simp
next
  case (Cons p rest)
  obtain i ref where p: "p = (i, ref)" by (cases p)
  obtain e s1 where set: "currentDrive_set (int i) s = (e, s1)"
    by (cases "currentDrive_set (int i) s")
  with setter_emitted [of "int i" s]
  obtain es where k: "emitted s1 = emitted s @ es" by auto
  have step: "\<exists>es'. emitted (snd (select_loop prev rest t)) = emitted s @ es'"
    if "emitted t = emitted s @ es0" for t es0
    using Cons.IH [of t] that by auto
  show ?case
    using k step by (cases e) (simp_all add: p set Let_def)
qed

lemma commit_keeps_list:
  assumes "r = (case currentDrive_set (- 1) s1 of
                  (Some e, s2) \<Rightarrow> (Some e, s2)
                | (None, s2) \<Rightarrow>
                    (case select_loop prev (zip [0 ..< length (usbDrives s2)] (usbDrives s2)) s2 of
                       (Some e, s3) \<Rightarrow> (Some e, s3)
                     | (None, s3) \<Rightarrow>
                         (None, s3\<lparr>emitted := emitted s3
                                     @ [CurrentDriveChanged, DriveToRestoreChanged]\<rparr>)))"
  shows "usbDrives (snd r) = usbDrives s1 \<and> (\<exists>es. emitted (snd r) = emitted s1 @ es)"
proof -
  obtain e s2 where set: "currentDrive_set (- 1) s1 = (e, s2)"
    by (cases "currentDrive_set (- 1) s1")
  from set setter_keeps_lists [of "- 1" s1] have u2: "usbDrives s2 = usbDrives s1" by simp
  from set setter_emitted [of "- 1" s1] obtain es2 where e2: "emitted s2 = emitted s1 @ es2"
    by auto
  let ?ps = "zip [0 ..< length (usbDrives s2)] (usbDrives s2)"
  obtain e' s3 where loop: "select_loop prev ?ps s2 = (e', s3)"
    by (cases "select_loop prev ?ps s2")
  from loop select_loop_keeps_lists [of prev ?ps s2] have u3: "usbDrives s3 = usbDrives s2"
    by simp
  from loop select_loop_emitted [of prev ?ps s2] obtain es3
    where e3: "emitted s3 = emitted s2 @ es3" by auto
  show ?thesis
    using assms set loop u2 u3 e2 e3 by (cases e; cases e') simp_all
qed

lemma fresh_objects_differ:
  assumes "new \<noteq> []" and "\<forall>ref \<in> set refs. ref < n"
  shows "[n ..< n + length new] \<noteq> refs"
proof
  assume eq: "[n ..< n + length new] = refs"
  from assms(1) have "n \<in> set [n ..< n + length new]" by simp
  with eq have "n \<in> set refs" by simp
  with assms(2) show False by auto
qed

text \<open>
  Whenever the backend reports at least one drive, the references in use are those of
  stored objects, no restore is in progress and the selected index can be read, the
  pass replaces the list by the new objects and emits \<^verbatim>\<open>usbDrivesChanged\<close>, whatever the
  reported drives are. Only an empty report on an empty list changes nothing.
\<close>

lemma pass_replaces_list:
  assumes "l_drives (live s) \<noteq> []"
      and "\<forall>ref \<in> set (usbDrives s). ref < length (objects s)"
      and "\<not> restoring s"
      and "usbDrives s = [] \<or> py_get (usbDrives s) (currentDrive s) \<noteq> None"
  shows "usbDrives (snd (USBDeviceCallback fmt s))
           = [length (objects s) ..< length (objects s) + length (l_drives (live s))]
       \<and> usbDrives (snd (USBDeviceCallback fmt s)) \<noteq> usbDrives s
       \<and> UsbDrivesChanged \<in> set (emitted (snd (USBDeviceCallback fmt s)))"
proof -
  let ?new = "map (\<lambda>(drive, info). USBDrive_init (drive_name fmt info) info) (l_drives (live s))"
  let ?tmp = "[length (objects s) ..< length (objects s) + length ?new]"
  let ?s1 = "s\<lparr>objects := objects s @ ?new, usbDrives := ?tmp,
               emitted := emitted s @ [UsbDrivesChanged], driveToRestore := None\<rparr>"
  from assms(1) have ne: "?new \<noteq> []" by simp
  have differ: "?tmp \<noteq> usbDrives s"
    by (rule fresh_objects_differ [OF ne assms(2)])
  from assms(4) obtain prev where
    prev: "(if length (usbDrives s) > 0
            then map_option (\<lambda>ref. device (u_drive (objects s ! ref)))
                   (py_get (usbDrives s) (currentDrive s))
            else Some []) = Some prev"
    by (cases "usbDrives s = []") auto
  have run: "USBDeviceCallback fmt s =
      (case currentDrive_set (- 1) ?s1 of
         (Some e, s2) \<Rightarrow> (Some e, s2)
       | (None, s2) \<Rightarrow>
           (case select_loop prev (zip [0 ..< length (usbDrives s2)] (usbDrives s2)) s2 of
              (Some e, s3) \<Rightarrow> (Some e, s3)
            | (None, s3) \<Rightarrow>
                (None, s3\<lparr>emitted := emitted s3
                            @ [CurrentDriveChanged, DriveToRestoreChanged]\<rparr>)))"
    unfolding USBDeviceCallback_def prev using assms(3) differ by (simp add: Let_def)
  from commit_keeps_list [OF run]
  have u: "usbDrives (snd (USBDeviceCallback fmt s)) = ?tmp"
    and "\<exists>es. emitted (snd (USBDeviceCallback fmt s)) = (emitted s @ [UsbDrivesChanged]) @ es"
    by simp_all
  then have "UsbDrivesChanged \<in> set (emitted (snd (USBDeviceCallback fmt s)))" by auto
  with u differ show ?thesis by simp
qed

lemma both_empty_no_change:
  "usbDrives s = [] \<Longrightarrow> l_drives (live s) = [] \<Longrightarrow> USBDeviceCallback fmt s = (None, s)"
  by (simp add: USBDeviceCallback_def)

text \<open>
  C4, at an input where the code departs from it. The inventory holds one drive, whose
  object is exactly what the pass builds from the backend's report (same device, size
  and label), and nothing has been emitted. The pass still puts a new object in the
  list and emits five signals.
\<close>

theorem identical_drives_are_committed:
  "map (\<lambda>ref. objects one_drive ! ref) (usbDrives one_drive)
     = map (\<lambda>(drive, info). USBDrive_init (drive_name (\<lambda>v k. ''8.0'') info) info)
         (l_drives (live one_drive))
   \<and> emitted one_drive = []
   \<and> fst (USBDeviceCallback (\<lambda>v k. ''8.0'') one_drive) = None
   \<and> usbDrives one_drive = [0]
   \<and> usbDrives (snd (USBDeviceCallback (\<lambda>v k. ''8.0'') one_drive)) = [1]
   \<and> emitted (snd (USBDeviceCallback (\<lambda>v k. ''8.0'') one_drive))
       = [UsbDrivesChanged, CurrentDriveChanged, CurrentDriveChanged, CurrentDriveChanged,
          DriveToRestoreChanged]"
  by (simp add: USBDeviceCallback_def one_drive_def restoring_def USBDrive_init_def
        drive_name_def stick_def currentDrive_set_def py_get_def selection_changed_def Let_def)

text \<open>
  C5. When the pending-restore reference is set and the drive it refers to is being
  restored, the pass leaves the whole state as it was: the drive list, the selected
  index and the pending-restore reference are unchanged and no signal is emitted. It
  returns normally whenever the selected index is -1 or a position of the list; for any
  other index the read of the previously selected drive, which comes first, raises, the
  state being unchanged then as well.
\<close>

theorem restore_in_progress_skips:
  assumes "driveToRestore s = Some ref" and "u_beingRestored (objects s ! ref)"
  shows "snd (USBDeviceCallback fmt s) = s
       \<and> (currentDrive s = - 1 \<or> (0 \<le> currentDrive s \<and> currentDrive s < int (length (usbDrives s)))
            \<longrightarrow> fst (USBDeviceCallback fmt s) = None)"
proof -
  from assms have r: "restoring s" by (simp add: restoring_def)
  have unchanged: "snd (USBDeviceCallback fmt s) = s"
    using r by (simp add: USBDeviceCallback_def split: option.splits)
  have "fst (USBDeviceCallback fmt s) = None"
    if "currentDrive s = - 1 \<or> (0 \<le> currentDrive s \<and> currentDrive s < int (length (usbDrives s)))"
  proof (cases "usbDrives s = []")
    case True
    with r show ?thesis by (simp add: USBDeviceCallback_def)
  next
    case False
    then obtain x xs where "usbDrives s = x # xs"
      by (cases "usbDrives s") auto
    with that have "py_get (usbDrives s) (currentDrive s) \<noteq> None"
      by (auto simp: py_get_def)
    with r show ?thesis by (auto simp: USBDeviceCallback_def)
  qed
  with unchanged show ?thesis by blast
qed

theorem restore_in_progress_skips_witness:
  "driveToRestore restoring_drive = Some 0
   \<and> u_beingRestored (objects restoring_drive ! 0)
   \<and> map fst (l_drives (live restoring_drive)) = [''/dev/sdb'', ''/dev/sdc'']
   \<and> 0 \<le> currentDrive restoring_drive
   \<and> currentDrive restoring_drive < int (length (usbDrives restoring_drive))
   \<and> USBDeviceCallback (\<lambda>v k. ''8.0'') restoring_drive = (None, restoring_drive)"
proof -
  have h1: "driveToRestore restoring_drive = Some 0"
    by (simp add: restoring_drive_def)
  have h2: "u_beingRestored (objects restoring_drive ! 0)"
    by (simp add: restoring_drive_def)
  have h3: "0 \<le> currentDrive restoring_drive
            \<and> currentDrive restoring_drive < int (length (usbDrives restoring_drive))"
    by (simp add: restoring_drive_def)
  have h4: "map fst (l_drives (live restoring_drive)) = [''/dev/sdb'', ''/dev/sdc'']"
    by (simp add: restoring_drive_def)
  from restore_in_progress_skips [OF h1 h2, of "\<lambda>v k. ''8.0''"] h3
  have "snd (USBDeviceCallback (\<lambda>v k. ''8.0'') restoring_drive) = restoring_drive"
    and "fst (USBDeviceCallback (\<lambda>v k. ''8.0'') restoring_drive) = None"
    by blast+
  then have "USBDeviceCallback (\<lambda>v k. ''8.0'') restoring_drive = (None, restoring_drive)"
    by (simp add: prod_eq_iff)
  with h1 h2 h3 h4 show ?thesis by blast
qed

end
